theory Spec2Isabelle
  imports Main "HOL-Library.Word"
begin

section \<open>Data model\<close>

text \<open>
  The processor of \<^verbatim>\<open>internal/pkg/consensus/processor.go\<close>. The packages it imports
  (\<^verbatim>\<open>types\<close>, \<^verbatim>\<open>address\<close>, \<^verbatim>\<open>errors\<close>, \<^verbatim>\<open>state\<close>, \<^verbatim>\<open>vm\<close>, \<^verbatim>\<open>block\<close>) are not part
  of the source at hand: their data types are modelled from the fields the processor
  reads and writes and from the specification, and their functions are parameters
  (record \<open>extern\<close> below).
\<close>

type_synonym bytes = "8 word list"
type_synonym GasUnits = "64 word"
type_synonym AttoFIL = int
type_synonym MethodID = "64 word"
type_synonym BlockHeight = nat
type_synonym cid = string

text \<open>
  Modelled from the spec: the \<^verbatim>\<open>address\<close> package is missing. An address is a tagged
  union over protocols; the ID variant is a numeric identity, the others need resolution.
  \<^verbatim>\<open>address.Undef\<close> is the zero address.
\<close>

datatype protocol = ID | SECP256K1 | Actor_protocol | BLS | Unknown

datatype address =
    Undef
  | IDAddress "64 word"
  | SECP256K1Address bytes
  | ActorAddress bytes
  | BLSAddress bytes

fun Protocol :: "address \<Rightarrow> protocol" where
  "Protocol Undef = Unknown"
| "Protocol (IDAddress _) = ID"
| "Protocol (SECP256K1Address _) = SECP256K1"
| "Protocol (ActorAddress _) = Actor_protocol"
| "Protocol (BLSAddress _) = BLS"

text \<open>
  Modelled from the spec: \<^verbatim>\<open>types.UnsignedMessage\<close> is missing. The fields are those the
  processor sets (lines 127-134) and reads (\<^verbatim>\<open>GasPrice\<close>, line 284), and the gas limit.
\<close>

record UnsignedMessage =
  To :: address
  From :: address
  CallSeqNum :: "64 word"
  Value :: AttoFIL
  Method :: MethodID
  Params :: bytes
  GasPrice :: AttoFIL
  GasLimit :: GasUnits

text \<open>
  Modelled from the spec: \<^verbatim>\<open>actor.Actor\<close> is missing. A state-tree entry with a code
  identifier, a balance, the sender's recorded sequence number and an embedded-state
  reference.
\<close>

record Actor =
  Code :: cid
  Balance :: AttoFIL
  CallSeqNum_actor :: "64 word"
  Head :: cid

text \<open>\<^verbatim>\<open>types.MessageReceipt\<close>: the three fields the processor fills in.\<close>

record MessageReceipt =
  ExitCode :: "8 word"
  GasAttoFIL :: AttoFIL
  Return :: "bytes list"

definition ZeroAttoFIL :: AttoFIL where
  "ZeroAttoFIL = 0"

subsection \<open>Errors\<close>

text \<open>
  Modelled from the spec: the \<^verbatim>\<open>errors\<close> package is missing. A Go \<^verbatim>\<open>error\<close> that may be
  \<^verbatim>\<open>nil\<close> is an \<open>error option\<close>. The constructors are the kinds of error the processor
  builds or tests for: revert errors (the sentinels below), faults, permanent apply
  errors, the entries of the table \<^verbatim>\<open>errors.Errors\<close>, the actor-not-found error of the
  state tree, and any other error (\<^verbatim>\<open>fmt.Errorf\<close>, errors of collaborators).
  The sentinels are distinct package-level values compared with \<^verbatim>\<open>==\<close>; they are
  told apart here by their messages.
\<close>

datatype errcode = ErrCannotTransferNegativeValue

datatype error =
    RevertError string
  | FaultError "error option" string
  | ApplyErrorPermanent "error option" string
  | TableError errcode
  | ActorNotFound
  | OtherError string

definition NewRevertError :: "string \<Rightarrow> error" where
  "NewRevertError m = RevertError m"

definition NewFaultError :: "string \<Rightarrow> error" where
  "NewFaultError m = FaultError None m"

definition FaultErrorWrap :: "error option \<Rightarrow> string \<Rightarrow> error" where
  "FaultErrorWrap err m = FaultError err m"

definition ApplyErrorPermanentWrapf :: "error option \<Rightarrow> string \<Rightarrow> error" where
  "ApplyErrorPermanentWrapf err m = ApplyErrorPermanent err m"

definition Errorf :: "string \<Rightarrow> error" where
  "Errorf m = OtherError m"

definition Errors :: "errcode \<Rightarrow> error" where
  "Errors c = TableError c"

fun IsFault :: "error option \<Rightarrow> bool" where
  "IsFault (Some (FaultError _ _)) = True"
| "IsFault _ = False"

fun IsApplyErrorPermanent :: "error option \<Rightarrow> bool" where
  "IsApplyErrorPermanent (Some (ApplyErrorPermanent _ _)) = True"
| "IsApplyErrorPermanent _ = False"

fun IsActorNotFoundError :: "error option \<Rightarrow> bool" where
  "IsActorNotFoundError (Some ActorNotFound) = True"
| "IsActorNotFoundError _ = False"

text \<open>The sentinel errors of lines 103-118.\<close>

definition errFromAccountNotFound :: error where
  "errFromAccountNotFound = NewRevertError ''from (sender) account not found''"

definition errGasAboveBlockLimit :: error where
  "errGasAboveBlockLimit = NewRevertError ''message gas limit above block gas limit''"

definition errGasPriceZero :: error where
  "errGasPriceZero = NewRevertError ''message gas price is zero''"

definition errGasTooHighForCurrentBlock :: error where
  "errGasTooHighForCurrentBlock = NewRevertError ''message gas limit too high for current block''"

definition errNonceTooHigh :: error where
  "errNonceTooHigh = NewRevertError ''nonce too high''"

definition errNonceTooLow :: error where
  "errNonceTooLow = NewRevertError ''nonce too low''"

definition errNonAccountActor :: error where
  "errNonAccountActor = NewRevertError ''message from non-account actor''"

definition errNegativeValue :: error where
  "errNegativeValue = NewRevertError ''negative value''"

definition errInsufficientGas :: error where
  "errInsufficientGas = NewRevertError ''balance insufficient to cover transfer+gas''"

definition errInvalidSignature :: error where
  "errInvalidSignature = NewRevertError ''invalid signature by sender over message data''"

definition errSelfSend :: error where
  "errSelfSend = NewRevertError ''cannot send to self''"

text \<open>The two classifiers of lines 382-397.\<close>

definition isTemporaryError :: "error option \<Rightarrow> bool" where
  "isTemporaryError err =
     (err = Some errFromAccountNotFound \<or>
      err = Some errNonceTooHigh \<or>
      err = Some errGasTooHighForCurrentBlock)"

definition isPermanentError :: "error option \<Rightarrow> bool" where
  "isPermanentError err =
     (err = Some errInsufficientGas \<or>
      err = Some errSelfSend \<or>
      err = Some errInvalidSignature \<or>
      err = Some errNonceTooLow \<or>
      err = Some errNonAccountActor \<or>
      err = Some errNegativeValue \<or>
      err = Some (Errors ErrCannotTransferNegativeValue) \<or>
      err = Some errGasAboveBlockLimit)"

subsection \<open>State tree, gas tracker, VM context\<close>

text \<open>
  \<^verbatim>\<open>state.Tree\<close> is an interface; the processor only calls \<^verbatim>\<open>GetActor\<close> on it, which
  returns an actor or an error (actor-not-found being one of them).
\<close>

type_synonym Tree = "address \<Rightarrow> error + Actor"

definition Tree_GetActor :: "Tree \<Rightarrow> address \<Rightarrow> error + Actor" where
  "Tree_GetActor t a = t a"

text \<open>
  Modelled from the spec: \<^verbatim>\<open>state.CachedTree\<close> is missing. A cached tree is a
  copy-on-write overlay: it refers to its base tree, reads fall through to the base,
  writes are buffered in the overlay.
\<close>

record CachedTree =
  base :: Tree
  overlay :: "address \<rightharpoonup> Actor"

definition NewCachedTree :: "Tree \<Rightarrow> CachedTree" where
  "NewCachedTree t = \<lparr>base = t, overlay = Map.empty\<rparr>"

definition CachedTree_GetActor :: "CachedTree \<Rightarrow> address \<Rightarrow> error + Actor" where
  "CachedTree_GetActor t a =
     (case overlay t a of Some act \<Rightarrow> Inr act | None \<Rightarrow> Tree_GetActor (base t) a)"

text \<open>\<^verbatim>\<open>vm.StorageMap\<close> and \<^verbatim>\<open>vm.Storage\<close>: content-addressed stores, opaque to the processor.\<close>

type_synonym StorageMap = "cid \<rightharpoonup> bytes"
type_synonym Storage = "cid \<rightharpoonup> bytes"

text \<open>
  Modelled from the spec: \<^verbatim>\<open>vm.LegacyGasTracker\<close> is missing. Per-message counters
  (limit, used) and the gas used so far in the block; \<^verbatim>\<open>MsgGasLimit\<close> is the field the
  processor assigns (lines 138, 189, 430).
\<close>

record LegacyGasTracker =
  MsgGasLimit :: GasUnits
  gasConsumedByBlock :: GasUnits
  gasConsumedByMessage :: GasUnits

text \<open>Modelled from the spec: the tracker is reset at the start of each message's attempt.\<close>

definition ResetForNewMessage :: "LegacyGasTracker \<Rightarrow> UnsignedMessage \<Rightarrow> LegacyGasTracker" where
  "ResetForNewMessage gt msg = gt\<lparr>MsgGasLimit := GasLimit msg, gasConsumedByMessage := 0\<rparr>"

text \<open>
  Modelled from the spec: \<^verbatim>\<open>vmCtx.GasUnits()\<close> is missing. The gas units a message has
  used are the per-message counter of the context's tracker.
\<close>

definition GasUnits_used :: "LegacyGasTracker \<Rightarrow> GasUnits" where
  "GasUnits_used gt = gasConsumedByMessage gt"

text \<open>\<^verbatim>\<open>block.TipSet\<close>: blocks at one height. \<^verbatim>\<open>vm.BlockMessagesInfo\<close>: a block's messages and miner.\<close>

record Block =
  Height :: "64 word"
  Ticket :: bytes

type_synonym TipSet = "Block list"

type_synonym BlockMessagesInfo = "UnsignedMessage list \<times> address"

text \<open>
  Modelled from the spec: \<^verbatim>\<open>TipSet.Height\<close> is missing. The height of a tip-set is that
  of its blocks; an empty tip-set has none.
\<close>

definition errUndefTipSet :: error where
  "errUndefTipSet = OtherError ''undefined tipset''"

fun TipSet_Height :: "TipSet \<Rightarrow> error + 64 word" where
  "TipSet_Height [] = Inl errUndefTipSet"
| "TipSet_Height (b # _) = Inr (Height b)"

definition NewBlockHeight :: "64 word \<Rightarrow> BlockHeight" where
  "NewBlockHeight h = unat h"

text \<open>\<^verbatim>\<open>builtin.Actors\<close>: the registry from code identifiers to built-in behaviour.\<close>

type_synonym Actors = "cid \<rightharpoonup> string"

text \<open>
  \<^verbatim>\<open>vm.NewContextParams\<close>, with the fields the processor sets. A field left out of a Go
  struct literal has its zero value: \<open>None\<close> for a pointer, \<open>Undef\<close> for an address,
  \<open>[]\<close> for a slice, \<open>Map.empty\<close> for a registry.
\<close>

record NewContextParams =
  From_actor :: "Actor option"
  To_actor :: "Actor option"
  ToAddr :: address
  Message :: "UnsignedMessage option"
  OriginMsg :: "UnsignedMessage option"
  State :: CachedTree
  StorageMap :: StorageMap
  GasTracker :: "LegacyGasTracker option"
  BlockHeight :: "BlockHeight option"
  Ancestors :: "TipSet list"
  Actors :: Actors

definition NewVMContext :: "NewContextParams \<Rightarrow> NewContextParams" where
  "NewVMContext params = params"

text \<open>Values of type \<^verbatim>\<open>interface{}\<close> passed to and returned by \<^verbatim>\<open>vmctx.Send\<close>.\<close>

datatype iface =
    BigInt int
  | AddressValue address
  | CidValue cid
  | ListValue "iface list"
  | NilValue

text \<open>\<^verbatim>\<open>(*big.Int).Uint64\<close>: the low 64 bits of the magnitude.\<close>

definition Uint64 :: "int \<Rightarrow> 64 word" where
  "Uint64 i = word_of_nat (nat \<bar>i\<bar>)"

text \<open>\<^verbatim>\<open>int64(g)\<close> on gas units, \<^verbatim>\<open>big.NewInt\<close> and \<^verbatim>\<open>AttoFIL.MulBigInt\<close>.\<close>

definition int64 :: "GasUnits \<Rightarrow> int" where
  "int64 g = sint g"

definition MulBigInt :: "AttoFIL \<Rightarrow> int \<Rightarrow> AttoFIL" where
  "MulBigInt a i = a * i"

subsection \<open>Collaborators\<close>

text \<open>
  The functions and constants of other packages that the processor uses. The mutable
  objects a Go call receives by reference (the cached tree, the storage map, the gas
  tracker of a context) are returned in their state after the call.
  \<^item> \<open>Send\<close> is \<^verbatim>\<open>vm.Send(ctx, vmCtx)\<close>: return segments, exit code, error.
  \<^item> \<open>Context_Send\<close> is \<^verbatim>\<open>vmctx.Send(to, method, value, params)\<close>.
  \<^item> \<open>LookupIDAddress\<close> is \<^verbatim>\<open>initactor.LookupIDAddress(vmCtx, addr)\<close>.
  \<^item> \<open>ApplyTipSetMessages\<close> is \<^verbatim>\<open>vm.NewVM(st, vms).ApplyTipSetMessages(msgs, epoch)\<close>.
\<close>

record extern =
  BlockGasLimit :: GasUnits
  InitAddress :: address
  NewIDAddress :: "64 word \<Rightarrow> error + address"
  CodeError :: "error option \<Rightarrow> 8 word"
  NewLegacyGasTracker :: LegacyGasTracker
  AccountActorCodeCid :: cid
  ExecMethodID :: MethodID
  GetActorIDForAddressMethodID :: MethodID
  DefaultActors :: Actors
  LookupIDAddress :: "NewContextParams \<Rightarrow> address \<Rightarrow>
    (64 word \<times> bool \<times> error option) \<times> CachedTree \<times> StorageMap"
  Send :: "NewContextParams \<Rightarrow>
    (bytes list \<times> 8 word \<times> error option) \<times> CachedTree \<times> StorageMap \<times> LegacyGasTracker"
  Context_Send :: "NewContextParams \<Rightarrow> address \<Rightarrow> MethodID \<Rightarrow> AttoFIL \<Rightarrow> iface list \<Rightarrow>
    iface \<times> CachedTree \<times> StorageMap \<times> LegacyGasTracker"
  ApplyTipSetMessages :: "Tree \<Rightarrow> Storage \<Rightarrow> BlockMessagesInfo list \<Rightarrow> BlockHeight \<Rightarrow>
    (MessageReceipt list option \<times> error option) \<times> Tree \<times> Storage"

text \<open>
  Modelled from the spec: the two admission checks of the gas tracker are missing. A gas
  limit is above the block limit when it exceeds the block's total capacity, and too
  high for the current block when it exceeds what remains of that capacity.
\<close>

definition GasAboveBlockLimit :: "extern \<Rightarrow> LegacyGasTracker \<Rightarrow> bool" where
  "GasAboveBlockLimit x gt = (BlockGasLimit x < MsgGasLimit gt)"

definition GasTooHighForCurrentBlock :: "extern \<Rightarrow> LegacyGasTracker \<Rightarrow> bool" where
  "GasTooHighForCurrentBlock x gt =
     (unat (BlockGasLimit x) < unat (MsgGasLimit gt) + unat (gasConsumedByBlock gt))"

text \<open>
  The calls the processor makes to its collaborators, in order. Every model function
  returns the list of the calls it made, so that "is never invoked" can be stated.
\<close>

datatype call =
    GetActor_call address
  | LookupIDAddress_call NewContextParams address
  | Validate_call UnsignedMessage Actor
  | Send_call NewContextParams
  | Context_Send_call NewContextParams MethodID
  | ApplyTipSetMessages_call

text \<open>
  The outcome of a function working on a cached tree, a storage map and a gas tracker
  it received by reference: its Go results, the three objects after the call, and the
  calls made.
\<close>

datatype 'r outcome =
  Outcome (result: 'r) (st_after: CachedTree) (vms_after: StorageMap)
    (gt_after: LegacyGasTracker) (calls: "call list")

section \<open>The processor\<close>

record ApplicationResult =
  Receipt :: "MessageReceipt option"
  ExecutionError :: "error option"

record ApplyMessageResult =
  ApplicationResult :: ApplicationResult
  Failure :: "error option"
  FailureIsPermanent :: bool

record DefaultProcessor =
  validator :: "UnsignedMessage \<Rightarrow> Actor \<Rightarrow> error option"
  actors :: Actors

definition NewConfiguredProcessor ::
  "(UnsignedMessage \<Rightarrow> Actor \<Rightarrow> error option) \<Rightarrow> Actors \<Rightarrow> DefaultProcessor" where
  "NewConfiguredProcessor v acts = \<lparr>validator = v, actors = acts\<rparr>"

text \<open>\<^verbatim>\<open>ProcessTipSet\<close>, lines 87-101. A \<^verbatim>\<open>nil\<close> slice is \<open>None\<close>.\<close>

definition ProcessTipSet ::
  "DefaultProcessor \<Rightarrow> extern \<Rightarrow> Tree \<Rightarrow> Storage \<Rightarrow> TipSet \<Rightarrow> BlockMessagesInfo list \<Rightarrow>
   (MessageReceipt list option \<times> error option) \<times> Tree \<times> Storage \<times> call list" where
  "ProcessTipSet p x t vms ts msgs =
     (case TipSet_Height ts of
        Inl err \<Rightarrow>
          ((None, Some (FaultErrorWrap (Some err) ''processing empty tipset'')), t, vms, [])
      | Inr h \<Rightarrow>
          (let epoch = NewBlockHeight h in
           case ApplyTipSetMessages x t vms msgs epoch of
             (r, t', vms') \<Rightarrow> (r, t', vms', [ApplyTipSetMessages_call])))"

text \<open>\<^verbatim>\<open>blockGasLimitError\<close>, lines 373-380.\<close>

definition blockGasLimitError :: "extern \<Rightarrow> LegacyGasTracker \<Rightarrow> error option" where
  "blockGasLimitError x gasTracker =
     (if GasAboveBlockLimit x gasTracker then Some errGasAboveBlockLimit
      else if GasTooHighForCurrentBlock x gasTracker then Some errGasTooHighForCurrentBlock
      else None)"

text \<open>
  \<^verbatim>\<open>ResolveAddress\<close>, lines 297-329. The gas tracker \<open>gt\<close> is a parameter the body never
  uses.
\<close>

definition ResolveAddress ::
  "extern \<Rightarrow> address \<Rightarrow> CachedTree \<Rightarrow> StorageMap \<Rightarrow> LegacyGasTracker \<Rightarrow>
   (address \<times> bool \<times> error option) outcome" where
  "ResolveAddress x addr t vms gt =
     (if Protocol addr = ID then Outcome (addr, True, None) t vms gt []
      else
        case CachedTree_GetActor t (InitAddress x) of
          Inl err \<Rightarrow> Outcome (Undef, False, Some err) t vms gt [GetActor_call (InitAddress x)]
        | Inr init \<Rightarrow>
            (let vmCtx = NewVMContext
                   \<lparr>From_actor = None, To_actor = Some init, ToAddr = InitAddress x,
                    Message = None, OriginMsg = None, State = t, StorageMap = vms,
                    GasTracker = None, BlockHeight = None, Ancestors = [],
                    Actors = Map.empty\<rparr>;
                 cs = [GetActor_call (InitAddress x), LookupIDAddress_call vmCtx addr]
             in
               case LookupIDAddress x vmCtx addr of
                 ((ident, found, err), t', vms') \<Rightarrow>
                   (case err of
                      Some e \<Rightarrow> Outcome (Undef, False, Some e) t' vms' gt cs
                    | None \<Rightarrow>
                        if \<not> found then Outcome (Undef, False, None) t' vms' gt cs
                        else
                          (case NewIDAddress x ident of
                             Inl e \<Rightarrow> Outcome (Undef, False, Some e) t' vms' gt cs
                           | Inr idAddr \<Rightarrow> Outcome (idAddr, True, None) t' vms' gt cs))))"

text \<open>
  The last two lines of \<^verbatim>\<open>getOrCreateActor\<close> (\<^verbatim>\<open>act, err := st.GetActor(ctx, idAddr);
  return act, idAddr, err\<close>), which it has on two paths.
\<close>

definition loadActor ::
  "CachedTree \<Rightarrow> StorageMap \<Rightarrow> LegacyGasTracker \<Rightarrow> call list \<Rightarrow> address \<Rightarrow>
   (Actor option \<times> address \<times> error option) outcome" where
  "loadActor t vms gt cs idAddr =
     (case CachedTree_GetActor t idAddr of
        Inl err \<Rightarrow> Outcome (None, idAddr, Some err) t vms gt (cs @ [GetActor_call idAddr])
      | Inr act \<Rightarrow> Outcome (Some act, idAddr, None) t vms gt (cs @ [GetActor_call idAddr]))"

text \<open>\<^verbatim>\<open>getOrCreateActor\<close>, lines 411-449.\<close>

definition getOrCreateActor ::
  "extern \<Rightarrow> CachedTree \<Rightarrow> StorageMap \<Rightarrow> address \<Rightarrow> LegacyGasTracker \<Rightarrow>
   (Actor option \<times> address \<times> error option) outcome" where
  "getOrCreateActor x t store addr gt =
     (case ResolveAddress x addr t store gt of
        Outcome (idAddr, found, err) t1 store1 gt1 cs1 \<Rightarrow>
          (case err of
             Some e \<Rightarrow> Outcome (None, Undef, Some e) t1 store1 gt1 cs1
           | None \<Rightarrow>
               if found then loadActor t1 store1 gt1 cs1 idAddr
               else
                 (case CachedTree_GetActor t1 (InitAddress x) of
                    Inl e \<Rightarrow>
                      Outcome (None, Undef, Some e) t1 store1 gt1
                        (cs1 @ [GetActor_call (InitAddress x)])
                  | Inr initAct \<Rightarrow>
                      (let noopGT = (NewLegacyGasTracker x)\<lparr>MsgGasLimit := 10000\<rparr>;
                           vmctx = NewVMContext
                             \<lparr>From_actor = None, To_actor = Some initAct, ToAddr = Undef,
                              Message = None, OriginMsg = None, State = t1,
                              StorageMap = store1, GasTracker = Some noopGT,
                              BlockHeight = None, Ancestors = [],
                              Actors = DefaultActors x\<rparr>
                       in
                         case Context_Send x vmctx (InitAddress x) (ExecMethodID x) ZeroAttoFIL
                                [CidValue (AccountActorCodeCid x), ListValue [AddressValue addr]] of
                           (_, t2, store2, noopGT2) \<Rightarrow>
                             (let vmctx2 = NewVMContext
                                    \<lparr>From_actor = None, To_actor = Some initAct, ToAddr = Undef,
                                     Message = None, OriginMsg = None, State = t2,
                                     StorageMap = store2, GasTracker = Some noopGT2,
                                     BlockHeight = None, Ancestors = [],
                                     Actors = DefaultActors x\<rparr>
                              in
                                case Context_Send x vmctx2 (InitAddress x)
                                       (GetActorIDForAddressMethodID x) ZeroAttoFIL
                                       [AddressValue addr] of
                                  (idAddrInt, t3, store3, noopGT3) \<Rightarrow>
                                    (let cs3 = cs1 @
                                           [GetActor_call (InitAddress x),
                                            Context_Send_call vmctx (ExecMethodID x),
                                            Context_Send_call vmctx2
                                              (GetActorIDForAddressMethodID x)]
                                     in
                                       case idAddrInt of
                                         BigInt ident \<Rightarrow>
                                           (case NewIDAddress x (Uint64 ident) of
                                              Inl e \<Rightarrow>
                                                Outcome (None, Undef, Some e) t3 store3 gt1 cs3
                                            | Inr idAddr' \<Rightarrow> loadActor t3 store3 gt1 cs3 idAddr')
                                       | _ \<Rightarrow>
                                           Outcome
                                             (None, Undef,
                                              Some (NewFaultError
                                                ''non-integer return from GetActorIDForAddress''))
                                             t3 store3 gt1 cs3))))))"

text \<open>The zero-gas receipt that \<^verbatim>\<open>attemptApplyMessage\<close> builds on each of its rejections.\<close>

definition zeroGasReceipt :: "extern \<Rightarrow> error option \<Rightarrow> MessageReceipt" where
  "zeroGasReceipt x err = \<lparr>ExitCode = CodeError x err, GasAttoFIL = ZeroAttoFIL, Return = []\<rparr>"

text \<open>
  \<^verbatim>\<open>attemptApplyMessage\<close>, lines 219-294. The message of the fault of line 246 is left
  without the formatted sender address.
\<close>

definition attemptApplyMessage ::
  "DefaultProcessor \<Rightarrow> extern \<Rightarrow> CachedTree \<Rightarrow> StorageMap \<Rightarrow> UnsignedMessage \<Rightarrow>
   BlockHeight option \<Rightarrow> LegacyGasTracker \<Rightarrow> TipSet list \<Rightarrow>
   (MessageReceipt option \<times> error option) outcome" where
  "attemptApplyMessage p x t store msg bh gasTracker ancestors =
     (let gt0 = ResetForNewMessage gasTracker msg in
      case blockGasLimitError x gt0 of
        Some err \<Rightarrow> Outcome (Some (zeroGasReceipt x (Some err)), Some err) t store gt0 []
      | None \<Rightarrow>
          (case ResolveAddress x (From msg) t store gt0 of
             Outcome (fromAddr, found, err) t1 store1 gt1 cs1 \<Rightarrow>
               (case err of
                  Some e \<Rightarrow>
                    Outcome (None, Some (FaultErrorWrap (Some e) ''Could not resolve actor address''))
                      t1 store1 gt1 cs1
                | None \<Rightarrow>
                    if \<not> found then
                      Outcome (Some (zeroGasReceipt x None), Some errFromAccountNotFound)
                        t1 store1 gt1 cs1
                    else
                      (let cs2 = cs1 @ [GetActor_call fromAddr] in
                       case CachedTree_GetActor t1 fromAddr of
                         Inl e \<Rightarrow>
                           if IsActorNotFoundError (Some e) then
                             Outcome (Some (zeroGasReceipt x (Some e)), Some errFromAccountNotFound)
                               t1 store1 gt1 cs2
                           else
                             Outcome
                               (None, Some (FaultErrorWrap (Some e) ''failed to get From actor''))
                               t1 store1 gt1 cs2
                       | Inr fromActor \<Rightarrow>
                           (let cs3 = cs2 @ [Validate_call msg fromActor] in
                            case validator p msg fromActor of
                              Some e \<Rightarrow>
                                Outcome (Some (zeroGasReceipt x (Some e)), Some e) t1 store1 gt1 cs3
                            | None \<Rightarrow>
                                (case getOrCreateActor x t1 store1 (To msg) gt1 of
                                   Outcome (toActor, toAddr, err') t2 store2 gt2 cs4 \<Rightarrow>
                                     (case err' of
                                        Some e \<Rightarrow>
                                          Outcome
                                            (None,
                                             Some (FaultErrorWrap (Some e) ''failed to get To actor''))
                                            t2 store2 gt2 (cs3 @ cs4)
                                      | None \<Rightarrow>
                                          (let vmCtxParams =
                                                 \<lparr>From_actor = Some fromActor, To_actor = toActor,
                                                  ToAddr = toAddr, Message = Some msg,
                                                  OriginMsg = Some msg, State = t2,
                                                  StorageMap = store2, GasTracker = Some gt2,
                                                  BlockHeight = bh, Ancestors = ancestors,
                                                  Actors = actors p\<rparr>;
                                               vmCtx = NewVMContext vmCtxParams;
                                               cs5 = cs3 @ cs4 @ [Send_call vmCtx]
                                           in
                                             case Send x vmCtx of
                                               ((ret, exitCode, vmErr), t3, store3, gt3) \<Rightarrow>
                                                 if IsFault vmErr then
                                                   Outcome (None, vmErr) t3 store3 gt3 cs5
                                                 else
                                                   (let gasCharge =
                                                          MulBigInt (GasPrice msg)
                                                            (int64 (GasUnits_used gt3));
                                                        receipt =
                                                          \<lparr>ExitCode = exitCode,
                                                           GasAttoFIL = gasCharge,
                                                           Return = [] @ ret\<rparr>
                                                    in Outcome (Some receipt, vmErr)
                                                         t3 store3 gt3 cs5)))))))))"

text \<open>
  \<^verbatim>\<open>CallQueryMethod\<close>, lines 123-170. A \<^verbatim>\<open>nil\<close> slice of return segments is \<open>[]\<close>. The
  base tree \<^verbatim>\<open>st\<close> is the object the cached tree refers to, so \<^verbatim>\<open>st.GetActor\<close> (line
  150) reads the base of the cached tree as it is at that point.
\<close>

definition CallQueryMethod ::
  "DefaultProcessor \<Rightarrow> extern \<Rightarrow> Tree \<Rightarrow> StorageMap \<Rightarrow> address \<Rightarrow> MethodID \<Rightarrow> bytes \<Rightarrow>
   address \<Rightarrow> BlockHeight option \<Rightarrow> (bytes list \<times> 8 word \<times> error option) outcome" where
  "CallQueryMethod p x t vms to method params from optBh =
     (let cachedSt = NewCachedTree t;
          msg = \<lparr>To = to, From = from, CallSeqNum = 0, Value = ZeroAttoFIL, Method = method,
                 Params = params, GasPrice = 0, GasLimit = 0\<rparr>;
          gasTracker = (NewLegacyGasTracker x)\<lparr>MsgGasLimit := BlockGasLimit x\<rparr>
      in
        case ResolveAddress x (To msg) cachedSt vms gasTracker of
          Outcome (toAddr, found, err) t1 vms1 gt1 cs1 \<Rightarrow>
            (case err of
               Some e \<Rightarrow>
                 Outcome ([], 1, Some (FaultErrorWrap (Some e) ''Could not resolve actor address''))
                   t1 vms1 gt1 cs1
             | None \<Rightarrow>
                 if \<not> found then
                   Outcome
                     ([], 1, Some (ApplyErrorPermanentWrapf None ''failed to resolve To actor''))
                     t1 vms1 gt1 cs1
                 else
                   (let cs2 = cs1 @ [GetActor_call toAddr] in
                    case Tree_GetActor (base t1) toAddr of
                      Inl e \<Rightarrow>
                        Outcome
                          ([], 1,
                           Some (ApplyErrorPermanentWrapf (Some e) ''failed to get To actor''))
                          t1 vms1 gt1 cs2
                    | Inr toActor \<Rightarrow>
                        (let vmCtxParams =
                               \<lparr>From_actor = None, To_actor = Some toActor, ToAddr = toAddr,
                                Message = Some msg, OriginMsg = Some msg, State = t1,
                                StorageMap = vms1, GasTracker = Some gt1, BlockHeight = optBh,
                                Ancestors = [], Actors = actors p\<rparr>;
                             vmCtx = NewVMContext vmCtxParams
                         in
                           case Send x vmCtx of
                             ((ret, retCode, err'), t2, vms2, gt2) \<Rightarrow>
                               Outcome (ret, retCode, err') t2 vms2 gt2
                                 (cs2 @ [Send_call vmCtx])))))"

text \<open>\<^verbatim>\<open>PreviewQueryMethod\<close>, lines 174-212.\<close>

definition PreviewQueryMethod ::
  "DefaultProcessor \<Rightarrow> extern \<Rightarrow> Tree \<Rightarrow> StorageMap \<Rightarrow> address \<Rightarrow> MethodID \<Rightarrow> bytes \<Rightarrow>
   address \<Rightarrow> BlockHeight option \<Rightarrow> (GasUnits \<times> error option) outcome" where
  "PreviewQueryMethod p x t vms to method params from optBh =
     (let cachedSt = NewCachedTree t;
          msg = \<lparr>To = to, From = from, CallSeqNum = 0, Value = ZeroAttoFIL, Method = method,
                 Params = params, GasPrice = 0, GasLimit = 0\<rparr>;
          gasTracker = (NewLegacyGasTracker x)\<lparr>MsgGasLimit := BlockGasLimit x\<rparr>
      in
        case getOrCreateActor x cachedSt vms (To msg) gasTracker of
          Outcome (toActor, toAddr, err) t1 vms1 gt1 cs1 \<Rightarrow>
            (case err of
               Some e \<Rightarrow>
                 Outcome (0, Some (FaultErrorWrap (Some e) ''failed to get To actor''))
                   t1 vms1 gt1 cs1
             | None \<Rightarrow>
                 (let vmCtxParams =
                        \<lparr>From_actor = None, To_actor = toActor, ToAddr = toAddr,
                         Message = Some msg, OriginMsg = Some msg, State = t1,
                         StorageMap = vms1, GasTracker = Some gt1, BlockHeight = optBh,
                         Ancestors = [], Actors = actors p\<rparr>;
                      vmCtx = NewVMContext vmCtxParams
                  in
                    case Send x vmCtx of
                      ((_, _, err'), t2, vms2, gt2) \<Rightarrow>
                        Outcome (GasUnits_used gt2, err') t2 vms2 gt2
                          (cs1 @ [Send_call vmCtx]))))"

text \<open>
  \<^verbatim>\<open>ApplyMessagesAndPayRewards\<close>, lines 334-364: the body is commented out; what runs is
  \<^verbatim>\<open>var results []*ApplyMessageResult\<close> and \<^verbatim>\<open>return results, fmt.Errorf("re-write or
  delete")\<close>. A \<^verbatim>\<open>nil\<close> slice of results is \<open>[]\<close>. The function returns its results,
  the tree and the storage map it was given, and the calls made.
\<close>

definition ApplyMessagesAndPayRewards ::
  "DefaultProcessor \<Rightarrow> Tree \<Rightarrow> StorageMap \<Rightarrow> UnsignedMessage list \<Rightarrow> address \<Rightarrow>
   BlockHeight option \<Rightarrow> TipSet list \<Rightarrow>
   (ApplyMessageResult list \<times> error option) \<times> Tree \<times> StorageMap \<times> call list" where
  "ApplyMessagesAndPayRewards p t vms messages minerOwnerAddr bh ancestors =
     (let results = [] in ((results, Some (Errorf ''re-write or delete'')), t, vms, []))"

text \<open>\<^verbatim>\<open>ApplyMessageDirect\<close>, lines 368-371.\<close>

definition ApplyMessageDirect ::
  "Tree \<Rightarrow> StorageMap \<Rightarrow> address \<Rightarrow> address \<Rightarrow> 64 word \<Rightarrow> AttoFIL \<Rightarrow> MethodID \<Rightarrow> iface list \<Rightarrow>
   (bytes \<times> error option) \<times> Tree \<times> StorageMap \<times> call list" where
  "ApplyMessageDirect t vms from to nonce val method params = (([], None), t, vms, [])"

text \<open>
  Modelled from the spec: the default message validator (\<^verbatim>\<open>NewDefaultMessageValidator\<close>)
  is missing. Its nonce rule compares the message's nonce with the sender's recorded
  sequence number: strictly less is "nonce too low", strictly greater is "nonce too
  high", equal passes.
\<close>

definition checkNonce :: "UnsignedMessage \<Rightarrow> Actor \<Rightarrow> error option" where
  "checkNonce msg fromActor =
     (if CallSeqNum msg < CallSeqNum_actor fromActor then Some errNonceTooLow
      else if CallSeqNum_actor fromActor < CallSeqNum msg then Some errNonceTooHigh
      else None)"

section \<open>Conditions on the collaborators\<close>

text \<open>
  Modelled from the spec: writes to a cached tree are buffered in the overlay and reach
  the base only through an explicit commit. A collaborator that is handed a cached tree
  works on the overlay: it returns the tree with the base it received.
\<close>

definition overlay_only :: "extern \<Rightarrow> bool" where
  "overlay_only x =
     ((\<forall>c a. base (fst (snd (LookupIDAddress x c a))) = base (State c)) \<and>
      (\<forall>c. base (fst (snd (Send x c))) = base (State c)) \<and>
      (\<forall>c a m v ps. base (fst (snd (Context_Send x c a m v ps))) = base (State c)))"


text \<open>The contexts of the calls to \<^verbatim>\<open>vm.Send\<close> and the trackers of the calls to \<^verbatim>\<open>vmctx.Send\<close>.\<close>

fun sent_contexts :: "call list \<Rightarrow> NewContextParams list" where
  "sent_contexts [] = []"
| "sent_contexts (Send_call c # cs) = c # sent_contexts cs"
| "sent_contexts (_ # cs) = sent_contexts cs"

fun context_send_trackers :: "call list \<Rightarrow> LegacyGasTracker option list" where
  "context_send_trackers [] = []"
| "context_send_trackers (Context_Send_call c m # cs) = GasTracker c # context_send_trackers cs"
| "context_send_trackers (_ # cs) = context_send_trackers cs"

fun validations :: "call list \<Rightarrow> (UnsignedMessage \<times> Actor) list" where
  "validations [] = []"
| "validations (Validate_call m a # cs) = (m, a) # validations cs"
| "validations (_ # cs) = validations cs"

fun lookups :: "call list \<Rightarrow> address list" where
  "lookups [] = []"
| "lookups (LookupIDAddress_call c a # cs) = a # lookups cs"
| "lookups (_ # cs) = lookups cs"

section \<open>Concrete inputs\<close>

text \<open>
  A small world to run the processor in: an init actor at ID 0, an account at ID 100
  with sequence number 5, a block gas limit of 10, a key address that the init actor
  maps to ID 100, a VM that uses up to 3 gas units per message, and an init actor whose
  exec creates the account with ID 101.
\<close>

definition actor0 :: Actor where
  "actor0 = \<lparr>Code = ''account'', Balance = 1000, CallSeqNum_actor = 5, Head = ''head''\<rparr>"

definition initActor0 :: Actor where
  "initActor0 = \<lparr>Code = ''init'', Balance = 0, CallSeqNum_actor = 0, Head = ''head''\<rparr>"

definition tree0 :: Tree where
  "tree0 a =
     (if a = IDAddress 0 then Inr initActor0
      else if a = IDAddress 100 then Inr actor0
      else Inl ActorNotFound)"

definition tracker0 :: LegacyGasTracker where
  "tracker0 = \<lparr>MsgGasLimit = 0, gasConsumedByBlock = 0, gasConsumedByMessage = 0\<rparr>"

definition use_gas :: "GasUnits \<Rightarrow> LegacyGasTracker option \<Rightarrow> LegacyGasTracker" where
  "use_gas n g =
     (case g of
        None \<Rightarrow> tracker0
      | Some gt \<Rightarrow> gt\<lparr>gasConsumedByMessage := min n (MsgGasLimit gt)\<rparr>)"

definition extern0 :: extern where
  "extern0 =
     \<lparr>BlockGasLimit = 10,
      InitAddress = IDAddress 0,
      NewIDAddress = (\<lambda>i. Inr (IDAddress i)),
      CodeError = (\<lambda>e. case e of None \<Rightarrow> 0 | Some _ \<Rightarrow> 1),
      NewLegacyGasTracker = tracker0,
      AccountActorCodeCid = ''account'',
      ExecMethodID = 1,
      GetActorIDForAddressMethodID = 2,
      DefaultActors = Map.empty,
      LookupIDAddress =
        (\<lambda>c a. ((100, a = SECP256K1Address [1], None), State c, StorageMap c)),
      Send = (\<lambda>c. (([[1]], 0, None), State c, StorageMap c, use_gas 3 (GasTracker c))),
      Context_Send =
        (\<lambda>c a m v ps.
           (if m = 1 then NilValue else BigInt 101,
            (State c)\<lparr>overlay := (overlay (State c))(IDAddress 101 \<mapsto> actor0)\<rparr>,
            StorageMap c, use_gas 1 (GasTracker c))),
      ApplyTipSetMessages = (\<lambda>t vms msgs h. ((Some [], None), t, vms))\<rparr>"

definition processor0 :: DefaultProcessor where
  "processor0 = NewConfiguredProcessor checkNonce Map.empty"

definition msg0 :: UnsignedMessage where
  "msg0 =
     \<lparr>To = SECP256K1Address [2], From = IDAddress 100, CallSeqNum = 5, Value = 10,
      Method = 0, Params = [], GasPrice = 2, GasLimit = 7\<rparr>"

text \<open>The gas tracker of the two query methods (lines 137-138, 188-189).\<close>

abbreviation queryTracker :: "extern \<Rightarrow> LegacyGasTracker" where
  "queryTracker x \<equiv> (NewLegacyGasTracker x)\<lparr>MsgGasLimit := BlockGasLimit x\<rparr>"

section \<open>Properties\<close>

lemmas sentinel_defs =
  errFromAccountNotFound_def errGasAboveBlockLimit_def errGasPriceZero_def
  errGasTooHighForCurrentBlock_def errNonceTooHigh_def errNonceTooLow_def
  errNonAccountActor_def errNegativeValue_def errInsufficientGas_def
  errInvalidSignature_def errSelfSend_def NewRevertError_def Errors_def

lemmas example_defs =
  actor0_def initActor0_def tree0_def tracker0_def use_gas_def extern0_def processor0_def
  msg0_def NewConfiguredProcessor_def

lemmas model_defs =
  attemptApplyMessage_def getOrCreateActor_def ResolveAddress_def loadActor_def
  blockGasLimitError_def GasAboveBlockLimit_def GasTooHighForCurrentBlock_def
  ResetForNewMessage_def CachedTree_GetActor_def Tree_GetActor_def NewCachedTree_def
  NewVMContext_def zeroGasReceipt_def ZeroAttoFIL_def MulBigInt_def int64_def
  GasUnits_used_def Uint64_def checkNonce_def FaultErrorWrap_def NewFaultError_def
  ApplyErrorPermanentWrapf_def

subsection \<open>Calls and frames\<close>

lemma sent_contexts_append [simp]:
  "sent_contexts (cs @ cs') = sent_contexts cs @ sent_contexts cs'"
  by (induction cs rule: sent_contexts.induct) simp_all

lemma context_send_trackers_append [simp]:
  "context_send_trackers (cs @ cs') = context_send_trackers cs @ context_send_trackers cs'"
  by (induction cs rule: context_send_trackers.induct) simp_all

lemma validations_append [simp]:
  "validations (cs @ cs') = validations cs @ validations cs'"
  by (induction cs rule: validations.induct) simp_all

lemma lookups_append [simp]:
  "lookups (cs @ cs') = lookups cs @ lookups cs'"
  by (induction cs rule: lookups.induct) simp_all

lemma ResolveAddress_frame:
  assumes "ResolveAddress x addr t vms gt = Outcome r t1 s1 g1 c1"
  shows "g1 = gt \<and> sent_contexts c1 = [] \<and> validations c1 = [] \<and>
         context_send_trackers c1 = [] \<and> set (lookups c1) \<subseteq> {addr}"
  using assms
  by (auto simp: ResolveAddress_def Let_def
      split: if_splits sum.splits prod.splits option.splits)

lemma overlay_only_Lookup:
  "overlay_only x \<Longrightarrow> LookupIDAddress x c a = (r, t', s') \<Longrightarrow> base t' = base (State c)"
  by (auto simp: overlay_only_def dest: arg_cong [where f = "\<lambda>y. base (fst (snd y))"])

lemma overlay_only_Send:
  "overlay_only x \<Longrightarrow> Send x c = (r, t', s', g') \<Longrightarrow> base t' = base (State c)"
  by (auto simp: overlay_only_def dest: arg_cong [where f = "\<lambda>y. base (fst (snd y))"])

lemma overlay_only_Context_Send:
  "overlay_only x \<Longrightarrow> Context_Send x c a m v ps = (r, t', s', g') \<Longrightarrow>
     base t' = base (State c)"
  by (auto simp: overlay_only_def dest: arg_cong [where f = "\<lambda>y. base (fst (snd y))"])

lemma ResolveAddress_base:
  assumes "overlay_only x" and "ResolveAddress x addr t vms gt = Outcome r t1 s1 g1 c1"
  shows "base t1 = base t"
  using assms(2)
  by (auto simp: ResolveAddress_def Let_def NewVMContext_def
      split: if_splits sum.splits prod.splits option.splits
      dest!: overlay_only_Lookup [OF assms(1)])

lemma loadActor_frame:
  assumes "loadActor t vms gt cs a = Outcome r t1 s1 g1 c1"
  shows "g1 = gt \<and> t1 = t \<and> s1 = vms \<and> c1 = cs @ [GetActor_call a]"
  using assms by (auto simp: loadActor_def split: sum.splits)

lemma getOrCreateActor_frame:
  assumes "getOrCreateActor x t store addr gt = Outcome r t1 s1 g1 c1"
  shows "g1 = gt \<and> sent_contexts c1 = [] \<and> validations c1 = [] \<and>
         set (lookups c1) \<subseteq> {addr}"
proof -
  obtain r0 t0 s0 g0 c0 where R: "ResolveAddress x addr t store gt = Outcome r0 t0 s0 g0 c0"
    by (cases "ResolveAddress x addr t store gt")
  note F = ResolveAddress_frame [OF R]
  show ?thesis
    using assms F
    unfolding getOrCreateActor_def R
    by (auto simp: Let_def split: if_splits sum.splits prod.splits option.splits iface.splits
        dest!: loadActor_frame)
qed

lemma getOrCreateActor_base:
  assumes "overlay_only x" and "getOrCreateActor x t store addr gt = Outcome r t1 s1 g1 c1"
  shows "base t1 = base t"
proof -
  obtain r0 t0 s0 g0 c0 where R: "ResolveAddress x addr t store gt = Outcome r0 t0 s0 g0 c0"
    by (cases "ResolveAddress x addr t store gt")
  have B: "base t0 = base t" by (rule ResolveAddress_base [OF assms(1) R])
  show ?thesis
    using assms(2) B
    unfolding getOrCreateActor_def R
    by (auto simp: Let_def NewVMContext_def
        split: if_splits sum.splits prod.splits option.splits iface.splits
        dest!: loadActor_frame overlay_only_Context_Send [OF assms(1)])
qed



subsection \<open>Block reward and batch application\<close>

text \<open>
  Claim C1. \<^verbatim>\<open>ApplyMessagesAndPayRewards\<close> is to pay the block reward, apply every message
  in order and return one result per message. The code does neither: on the one-message
  batch \<open>[msg0]\<close> it returns no result at all, together with the error "re-write or
  delete".
\<close>

theorem ApplyMessagesAndPayRewards_no_results:
  "fst (ApplyMessagesAndPayRewards processor0 tree0 Map.empty [msg0] (IDAddress 100) None []) =
     ([], Some (Errorf ''re-write or delete'')) \<and>
   length (fst (fst (ApplyMessagesAndPayRewards processor0 tree0 Map.empty [msg0]
     (IDAddress 100) None []))) < length [msg0]"
  by (simp add: ApplyMessagesAndPayRewards_def)

subsection \<open>Gas admission\<close>

text \<open>
  Claim C2, as amended. When the gas limit of a message is inadmissible at admission
  (above the block gas limit, or too high for what remains of the current block),
  \<^verbatim>\<open>attemptApplyMessage\<close> returns a zero-gas receipt and the admission error, calls no
  collaborator (the VM is not invoked) and leaves the tree and the storage map as they
  are. The error is \<open>errGasAboveBlockLimit\<close>, a permanent rejection, when the limit exceeds
  the block gas limit; otherwise it is \<open>errGasTooHighForCurrentBlock\<close>, a temporary
  rejection.
\<close>

theorem gas_admission_rejects:
  assumes "GasAboveBlockLimit x (ResetForNewMessage gasTracker msg) \<or>
           GasTooHighForCurrentBlock x (ResetForNewMessage gasTracker msg)"
  shows "\<exists>e. attemptApplyMessage p x t store msg bh gasTracker ancestors =
             Outcome (Some \<lparr>ExitCode = CodeError x (Some e), GasAttoFIL = 0, Return = []\<rparr>,
               Some e) t store (ResetForNewMessage gasTracker msg) [] \<and>
           (if BlockGasLimit x < GasLimit msg
            then e = errGasAboveBlockLimit \<and> isPermanentError (Some e) \<and>
              \<not> isTemporaryError (Some e)
            else e = errGasTooHighForCurrentBlock \<and> isTemporaryError (Some e) \<and>
              \<not> isPermanentError (Some e))"
  using assms
  by (auto simp: attemptApplyMessage_def blockGasLimitError_def Let_def zeroGasReceipt_def
      ZeroAttoFIL_def GasAboveBlockLimit_def ResetForNewMessage_def
      isPermanentError_def isTemporaryError_def sentinel_defs)

theorem gas_admission_rejects_witness:
  "GasAboveBlockLimit extern0 (ResetForNewMessage tracker0 (msg0\<lparr>GasLimit := 11\<rparr>)) \<and>
   attemptApplyMessage processor0 extern0 (NewCachedTree tree0) Map.empty
     (msg0\<lparr>GasLimit := 11\<rparr>) None tracker0 [] =
     Outcome (Some \<lparr>ExitCode = CodeError extern0 (Some errGasAboveBlockLimit), GasAttoFIL = 0,
         Return = []\<rparr>, Some errGasAboveBlockLimit)
       (NewCachedTree tree0) Map.empty (ResetForNewMessage tracker0 (msg0\<lparr>GasLimit := 11\<rparr>)) [] \<and>
   isPermanentError (Some errGasAboveBlockLimit) \<and>
   GasTooHighForCurrentBlock extern0
     (ResetForNewMessage (tracker0\<lparr>gasConsumedByBlock := 5\<rparr>) msg0) \<and>
   attemptApplyMessage processor0 extern0 (NewCachedTree tree0) Map.empty msg0 None
     (tracker0\<lparr>gasConsumedByBlock := 5\<rparr>) [] =
     Outcome (Some \<lparr>ExitCode = CodeError extern0 (Some errGasTooHighForCurrentBlock),
         GasAttoFIL = 0, Return = []\<rparr>, Some errGasTooHighForCurrentBlock)
       (NewCachedTree tree0) Map.empty
       (ResetForNewMessage (tracker0\<lparr>gasConsumedByBlock := 5\<rparr>) msg0) [] \<and>
   isTemporaryError (Some errGasTooHighForCurrentBlock)"
proof -
  have a: "GasAboveBlockLimit extern0 (ResetForNewMessage tracker0 (msg0\<lparr>GasLimit := 11\<rparr>))"
    by (simp add: GasAboveBlockLimit_def ResetForNewMessage_def extern0_def msg0_def tracker0_def)
  have b: "GasTooHighForCurrentBlock extern0
     (ResetForNewMessage (tracker0\<lparr>gasConsumedByBlock := 5\<rparr>) msg0)"
    by (simp add: GasTooHighForCurrentBlock_def ResetForNewMessage_def extern0_def msg0_def
        tracker0_def)
  have la: "BlockGasLimit extern0 < GasLimit (msg0\<lparr>GasLimit := 11\<rparr>)"
    by (simp add: extern0_def msg0_def)
  have lb: "\<not> BlockGasLimit extern0 < GasLimit msg0"
    by (simp add: extern0_def msg0_def)
  show ?thesis
    using a b la lb
      gas_admission_rejects [where x = extern0 and gasTracker = tracker0
        and msg = "msg0\<lparr>GasLimit := 11\<rparr>" and p = processor0 and t = "NewCachedTree tree0"
        and store = Map.empty and bh = None and ancestors = "[]"]
      gas_admission_rejects [where x = extern0
        and gasTracker = "tracker0\<lparr>gasConsumedByBlock := 5\<rparr>"
        and msg = msg0 and p = processor0 and t = "NewCachedTree tree0"
        and store = Map.empty and bh = None and ancestors = "[]"]
    by auto
qed

text \<open>
  The claim as first stated, that every inadmissible gas limit is a permanent-class
  rejection, fails: with a block gas limit of 10 of which 5 are used, a message with gas
  limit 7 is rejected with \<open>errGasTooHighForCurrentBlock\<close>, which \<^verbatim>\<open>isTemporaryError\<close>
  accepts and \<^verbatim>\<open>isPermanentError\<close> does not.
\<close>

theorem gas_admission_counterexample:
  "GasTooHighForCurrentBlock extern0
     (ResetForNewMessage (tracker0\<lparr>gasConsumedByBlock := 5\<rparr>) msg0) \<and>
   result (attemptApplyMessage processor0 extern0 (NewCachedTree tree0) Map.empty msg0 None
     (tracker0\<lparr>gasConsumedByBlock := 5\<rparr>) []) =
     (Some \<lparr>ExitCode = 1, GasAttoFIL = 0, Return = []\<rparr>, Some errGasTooHighForCurrentBlock) \<and>
   \<not> isPermanentError (Some errGasTooHighForCurrentBlock) \<and>
   \<not> IsApplyErrorPermanent (Some errGasTooHighForCurrentBlock) \<and>
   isTemporaryError (Some errGasTooHighForCurrentBlock)"
  by (simp add: model_defs example_defs Let_def isPermanentError_def isTemporaryError_def
      sentinel_defs)

subsection \<open>Nonce validation\<close>

text \<open>
  Claim C3. Under the nonce rule of the validator, a nonce strictly below the sender's
  recorded sequence number gives \<open>errNonceTooLow\<close>, which \<^verbatim>\<open>isPermanentError\<close> accepts and
  \<^verbatim>\<open>isTemporaryError\<close> does not; a nonce strictly above gives \<open>errNonceTooHigh\<close>, which
  \<^verbatim>\<open>isTemporaryError\<close> accepts and \<^verbatim>\<open>isPermanentError\<close> does not; an equal nonce passes.
  In \<^verbatim>\<open>attemptApplyMessage\<close> with that validator, once the message is admitted and its
  sender is found, an unequal nonce ends in a zero-gas receipt with that error and no
  call to the VM, and an equal nonce goes on to the receiver and, when the receiver is
  obtained, to exactly one call to the VM.
\<close>

theorem nonce_classification:
  "(CallSeqNum msg < CallSeqNum_actor a \<longrightarrow>
      checkNonce msg a = Some errNonceTooLow \<and> isPermanentError (checkNonce msg a) \<and>
      \<not> isTemporaryError (checkNonce msg a)) \<and>
   (CallSeqNum_actor a < CallSeqNum msg \<longrightarrow>
      checkNonce msg a = Some errNonceTooHigh \<and> isTemporaryError (checkNonce msg a) \<and>
      \<not> isPermanentError (checkNonce msg a)) \<and>
   (CallSeqNum msg = CallSeqNum_actor a \<longrightarrow> checkNonce msg a = None) \<and>
   (validator p = checkNonce \<and>
    blockGasLimitError x (ResetForNewMessage gasTracker msg) = None \<and>
    ResolveAddress x (From msg) t store (ResetForNewMessage gasTracker msg) =
      Outcome (fromAddr, True, None) tR storeR gtR csR \<and>
    CachedTree_GetActor tR fromAddr = Inr a \<longrightarrow>
      (CallSeqNum msg \<noteq> CallSeqNum_actor a \<longrightarrow>
         result (attemptApplyMessage p x t store msg bh gasTracker ancestors) =
           (Some (zeroGasReceipt x (checkNonce msg a)), checkNonce msg a) \<and>
         sent_contexts (calls (attemptApplyMessage p x t store msg bh gasTracker ancestors)) = []) \<and>
      (CallSeqNum msg = CallSeqNum_actor a \<and>
       snd (snd (result (getOrCreateActor x tR storeR (To msg) gtR))) = None \<longrightarrow>
         length (sent_contexts
           (calls (attemptApplyMessage p x t store msg bh gasTracker ancestors))) = 1))"
proof -
  have pure:
    "(CallSeqNum msg < CallSeqNum_actor a \<longrightarrow>
        checkNonce msg a = Some errNonceTooLow \<and> isPermanentError (checkNonce msg a) \<and>
        \<not> isTemporaryError (checkNonce msg a)) \<and>
     (CallSeqNum_actor a < CallSeqNum msg \<longrightarrow>
        checkNonce msg a = Some errNonceTooHigh \<and> isTemporaryError (checkNonce msg a) \<and>
        \<not> isPermanentError (checkNonce msg a)) \<and>
     (CallSeqNum msg = CallSeqNum_actor a \<longrightarrow> checkNonce msg a = None)"
    by (auto simp: checkNonce_def isPermanentError_def isTemporaryError_def sentinel_defs)
  have engine:
    "(CallSeqNum msg \<noteq> CallSeqNum_actor a \<longrightarrow>
         result (attemptApplyMessage p x t store msg bh gasTracker ancestors) =
           (Some (zeroGasReceipt x (checkNonce msg a)), checkNonce msg a) \<and>
         sent_contexts (calls (attemptApplyMessage p x t store msg bh gasTracker ancestors)) = []) \<and>
      (CallSeqNum msg = CallSeqNum_actor a \<and>
       snd (snd (result (getOrCreateActor x tR storeR (To msg) gtR))) = None \<longrightarrow>
         length (sent_contexts
           (calls (attemptApplyMessage p x t store msg bh gasTracker ancestors))) = 1)"
    if v: "validator p = checkNonce"
      and adm: "blockGasLimitError x (ResetForNewMessage gasTracker msg) = None"
      and R: "ResolveAddress x (From msg) t store (ResetForNewMessage gasTracker msg) =
        Outcome (fromAddr, True, None) tR storeR gtR csR"
      and act: "CachedTree_GetActor tR fromAddr = Inr a"
  proof -
    have S1: "sent_contexts csR = []"
      using ResolveAddress_frame [OF R] by simp
    obtain r2 t2 s2 g2 c2 where
      G: "getOrCreateActor x tR storeR (To msg) gtR = Outcome r2 t2 s2 g2 c2"
      by (cases "getOrCreateActor x tR storeR (To msg) gtR")
    have S2: "sent_contexts c2 = []"
      using getOrCreateActor_frame [OF G] by simp
    show ?thesis
    proof (cases "CallSeqNum msg = CallSeqNum_actor a")
      case True
      then have "checkNonce msg a = None" by (simp add: checkNonce_def)
      with True S1 S2 show ?thesis
        by (auto simp: attemptApplyMessage_def Let_def v adm R act G NewVMContext_def
            split: if_splits sum.splits prod.splits option.splits)
    next
      case False
      then have "CallSeqNum msg < CallSeqNum_actor a \<or> CallSeqNum_actor a < CallSeqNum msg"
        by (simp add: neq_iff)
      then have "checkNonce msg a \<noteq> None" by (auto simp: checkNonce_def)
      then obtain e where "checkNonce msg a = Some e" by (cases "checkNonce msg a") auto
      with False S1 show ?thesis
        by (simp add: attemptApplyMessage_def Let_def v adm R act)
    qed
  qed
  from pure engine show ?thesis by blast
qed

theorem nonce_classification_witness:
  "(CallSeqNum (msg0\<lparr>CallSeqNum := 4\<rparr>) < CallSeqNum_actor actor0 \<and>
    isPermanentError (checkNonce (msg0\<lparr>CallSeqNum := 4\<rparr>) actor0) \<and>
    \<not> isTemporaryError (checkNonce (msg0\<lparr>CallSeqNum := 4\<rparr>) actor0) \<and>
    result (attemptApplyMessage processor0 extern0 (NewCachedTree tree0) Map.empty
      (msg0\<lparr>CallSeqNum := 4\<rparr>) None tracker0 []) =
      (Some (zeroGasReceipt extern0 (checkNonce (msg0\<lparr>CallSeqNum := 4\<rparr>) actor0)),
       checkNonce (msg0\<lparr>CallSeqNum := 4\<rparr>) actor0)) \<and>
   (CallSeqNum_actor actor0 < CallSeqNum (msg0\<lparr>CallSeqNum := 7\<rparr>) \<and>
    checkNonce (msg0\<lparr>CallSeqNum := 7\<rparr>) actor0 = Some errNonceTooHigh \<and>
    isTemporaryError (checkNonce (msg0\<lparr>CallSeqNum := 7\<rparr>) actor0) \<and>
    \<not> isPermanentError (checkNonce (msg0\<lparr>CallSeqNum := 7\<rparr>) actor0) \<and>
    sent_contexts (calls (attemptApplyMessage processor0 extern0 (NewCachedTree tree0)
      Map.empty (msg0\<lparr>CallSeqNum := 7\<rparr>) None tracker0 [])) = []) \<and>
   (CallSeqNum msg0 = CallSeqNum_actor actor0 \<and> checkNonce msg0 actor0 = None \<and>
    length (sent_contexts (calls (attemptApplyMessage processor0 extern0 (NewCachedTree tree0)
      Map.empty msg0 None tracker0 []))) = 1)"
proof -
  let ?lo = "msg0\<lparr>CallSeqNum := 4\<rparr>" and ?hi = "msg0\<lparr>CallSeqNum := 7\<rparr>"
  have v: "validator processor0 = checkNonce"
    by (simp add: processor0_def NewConfiguredProcessor_def)
  have act: "CachedTree_GetActor (NewCachedTree tree0) (IDAddress 100) = Inr actor0"
    by (simp add: CachedTree_GetActor_def NewCachedTree_def Tree_GetActor_def tree0_def)
  have adm: "blockGasLimitError extern0 (ResetForNewMessage tracker0 m) = None"
    if "GasLimit m = 7" for m
    using that
    by (simp add: blockGasLimitError_def GasAboveBlockLimit_def GasTooHighForCurrentBlock_def
        ResetForNewMessage_def extern0_def tracker0_def)
  have R: "ResolveAddress extern0 (From m) (NewCachedTree tree0) Map.empty
             (ResetForNewMessage tracker0 m) =
           Outcome (IDAddress 100, True, None) (NewCachedTree tree0) Map.empty
             (ResetForNewMessage tracker0 m) []"
    if "From m = IDAddress 100" for m
    using that by (simp add: ResolveAddress_def)
  have lo: "CallSeqNum ?lo < CallSeqNum_actor actor0"
    by (simp add: msg0_def actor0_def)
  have hi: "CallSeqNum_actor actor0 < CallSeqNum ?hi"
    by (simp add: msg0_def actor0_def)
  have eq: "CallSeqNum msg0 = CallSeqNum_actor actor0"
    by (simp add: msg0_def actor0_def)
  have to: "snd (snd (result (getOrCreateActor extern0 (NewCachedTree tree0) Map.empty
      (To msg0) (ResetForNewMessage tracker0 msg0)))) = None"
    by (simp add: model_defs example_defs Let_def)
  have Rlo: "ResolveAddress extern0 (From ?lo) (NewCachedTree tree0) Map.empty
             (ResetForNewMessage tracker0 ?lo) =
           Outcome (IDAddress 100, True, None) (NewCachedTree tree0) Map.empty
             (ResetForNewMessage tracker0 ?lo) []"
    by (rule R) (simp add: msg0_def)
  have Rhi: "ResolveAddress extern0 (From ?hi) (NewCachedTree tree0) Map.empty
             (ResetForNewMessage tracker0 ?hi) =
           Outcome (IDAddress 100, True, None) (NewCachedTree tree0) Map.empty
             (ResetForNewMessage tracker0 ?hi) []"
    by (rule R) (simp add: msg0_def)
  have Req: "ResolveAddress extern0 (From msg0) (NewCachedTree tree0) Map.empty
             (ResetForNewMessage tracker0 msg0) =
           Outcome (IDAddress 100, True, None) (NewCachedTree tree0) Map.empty
             (ResetForNewMessage tracker0 msg0) []"
    by (rule R) (simp add: msg0_def)
  have alo: "blockGasLimitError extern0 (ResetForNewMessage tracker0 ?lo) = None"
    by (rule adm) (simp add: msg0_def)
  have ahi: "blockGasLimitError extern0 (ResetForNewMessage tracker0 ?hi) = None"
    by (rule adm) (simp add: msg0_def)
  have aeq: "blockGasLimitError extern0 (ResetForNewMessage tracker0 msg0) = None"
    by (rule adm) (simp add: msg0_def)
  have neq_lo: "CallSeqNum ?lo \<noteq> CallSeqNum_actor actor0" using lo by simp
  have neq_hi: "CallSeqNum ?hi \<noteq> CallSeqNum_actor actor0" using hi by simp
  have W1:
    "isPermanentError (checkNonce ?lo actor0) \<and> \<not> isTemporaryError (checkNonce ?lo actor0) \<and>
     result (attemptApplyMessage processor0 extern0 (NewCachedTree tree0) Map.empty
       ?lo None tracker0 []) =
       (Some (zeroGasReceipt extern0 (checkNonce ?lo actor0)), checkNonce ?lo actor0)"
    using lo neq_lo v alo Rlo act
      nonce_classification [where msg = ?lo and a = actor0 and p = processor0 and x = extern0
        and gasTracker = tracker0 and t = "NewCachedTree tree0" and store = Map.empty
        and fromAddr = "IDAddress 100" and tR = "NewCachedTree tree0" and storeR = Map.empty
        and gtR = "ResetForNewMessage tracker0 ?lo" and csR = "[]" and bh = None
        and ancestors = "[]"]
    by blast
  have W2:
    "checkNonce ?hi actor0 = Some errNonceTooHigh \<and>
     isTemporaryError (checkNonce ?hi actor0) \<and> \<not> isPermanentError (checkNonce ?hi actor0) \<and>
     sent_contexts (calls (attemptApplyMessage processor0 extern0 (NewCachedTree tree0)
       Map.empty ?hi None tracker0 [])) = []"
    using hi neq_hi v ahi Rhi act
      nonce_classification [where msg = ?hi and a = actor0 and p = processor0 and x = extern0
        and gasTracker = tracker0 and t = "NewCachedTree tree0" and store = Map.empty
        and fromAddr = "IDAddress 100" and tR = "NewCachedTree tree0" and storeR = Map.empty
        and gtR = "ResetForNewMessage tracker0 ?hi" and csR = "[]" and bh = None
        and ancestors = "[]"]
    by blast
  have W3:
    "checkNonce msg0 actor0 = None \<and>
     length (sent_contexts (calls (attemptApplyMessage processor0 extern0 (NewCachedTree tree0)
       Map.empty msg0 None tracker0 []))) = 1"
    using eq v aeq Req act to
      nonce_classification [where msg = msg0 and a = actor0 and p = processor0 and x = extern0
        and gasTracker = tracker0 and t = "NewCachedTree tree0" and store = Map.empty
        and fromAddr = "IDAddress 100" and tR = "NewCachedTree tree0" and storeR = Map.empty
        and gtR = "ResetForNewMessage tracker0 msg0" and csR = "[]" and bh = None
        and ancestors = "[]"]
    by blast
  from lo hi eq W1 W2 W3 show ?thesis by blast
qed

subsection \<open>Gas charge\<close>



subsection \<open>Address resolution\<close>

text \<open>
  Claim C5. For an address whose protocol is ID, \<^verbatim>\<open>ResolveAddress\<close> returns the address
  itself with \<open>found = True\<close> and no error, makes no call and leaves the tree, the storage
  map and the gas tracker as they are; resolving the result again, in any state, gives
  the same ID address.
\<close>

theorem ResolveAddress_ID:
  assumes "Protocol addr = ID"
  shows "ResolveAddress x addr t vms gt = Outcome (addr, True, None) t vms gt [] \<and>
         ResolveAddress x (fst (result (ResolveAddress x addr t vms gt))) t' vms' gt' =
           Outcome (addr, True, None) t' vms' gt' []"
  using assms by (simp add: ResolveAddress_def)

theorem ResolveAddress_ID_witness:
  "Protocol (IDAddress 100) = ID \<and>
   ResolveAddress extern0 (IDAddress 100) (NewCachedTree tree0) Map.empty tracker0 =
     Outcome (IDAddress 100, True, None) (NewCachedTree tree0) Map.empty tracker0 []"
  using ResolveAddress_ID [of "IDAddress 100" extern0 "NewCachedTree tree0" Map.empty tracker0]
  by simp

subsection \<open>Query methods\<close>



text \<open>
  Claim C7. \<^verbatim>\<open>CallQueryMethod\<close> and \<^verbatim>\<open>PreviewQueryMethod\<close> work on a cached tree
  created over the given tree and never commit it: when the collaborators write to the
  overlay only, the base of the cached tree after the call is the tree that was passed
  in, and so is the base of every tree handed to the VM.
\<close>

theorem query_leaves_base_tree:
  assumes "overlay_only x"
  shows "base (st_after (CallQueryMethod p x t vms to meth params sender optBh)) = t \<and>
         base (st_after (PreviewQueryMethod p x t vms to meth params sender optBh)) = t \<and>
         (\<forall>c \<in> set (sent_contexts (calls (CallQueryMethod p x t vms to meth params sender optBh))).
            base (State c) = t) \<and>
         (\<forall>c \<in> set (sent_contexts
             (calls (PreviewQueryMethod p x t vms to meth params sender optBh))).
            base (State c) = t)"
proof -
  obtain r1 t1 s1 g1 c1 where
    R: "ResolveAddress x to (NewCachedTree t) vms (queryTracker x) = Outcome r1 t1 s1 g1 c1"
    by (cases "ResolveAddress x to (NewCachedTree t) vms (queryTracker x)")
  have B1: "base t1 = t"
    using ResolveAddress_base [OF assms R] by (simp add: NewCachedTree_def)
  have S1: "sent_contexts c1 = []"
    using ResolveAddress_frame [OF R] by simp
  obtain r2 t2 s2 g2 c2 where
    G: "getOrCreateActor x (NewCachedTree t) vms to (queryTracker x) = Outcome r2 t2 s2 g2 c2"
    by (cases "getOrCreateActor x (NewCachedTree t) vms to (queryTracker x)")
  have B2: "base t2 = t"
    using getOrCreateActor_base [OF assms G] by (simp add: NewCachedTree_def)
  have S2: "sent_contexts c2 = []"
    using getOrCreateActor_frame [OF G] by simp
  have Q: "base (st_after (CallQueryMethod p x t vms to meth params sender optBh)) = t \<and>
     (\<forall>c \<in> set (sent_contexts (calls (CallQueryMethod p x t vms to meth params sender optBh))).
        base (State c) = t)"
    using B1 S1
    by (auto simp: CallQueryMethod_def Let_def R NewVMContext_def
        split: if_splits sum.splits prod.splits option.splits
        dest!: overlay_only_Send [OF assms])
  have P: "base (st_after (PreviewQueryMethod p x t vms to meth params sender optBh)) = t \<and>
     (\<forall>c \<in> set (sent_contexts
         (calls (PreviewQueryMethod p x t vms to meth params sender optBh))).
        base (State c) = t)"
    using B2 S2
    by (auto simp: PreviewQueryMethod_def Let_def G NewVMContext_def
        split: if_splits sum.splits prod.splits option.splits
        dest!: overlay_only_Send [OF assms])
  from Q P show ?thesis by blast
qed

theorem query_leaves_base_tree_witness:
  "overlay_only extern0 \<and>
   base (st_after (CallQueryMethod processor0 extern0 tree0 Map.empty (IDAddress 100) 0 []
     Undef None)) = tree0 \<and>
   base (st_after (PreviewQueryMethod processor0 extern0 tree0 Map.empty
     (SECP256K1Address [2]) 0 [] Undef None)) = tree0 \<and>
   overlay (st_after (PreviewQueryMethod processor0 extern0 tree0 Map.empty
     (SECP256K1Address [2]) 0 [] Undef None)) (IDAddress 101) = Some actor0"
proof -
  have h: "overlay_only extern0"
    by (simp add: overlay_only_def extern0_def)
  have o: "overlay (st_after (PreviewQueryMethod processor0 extern0 tree0 Map.empty
     (SECP256K1Address [2]) 0 [] Undef None)) (IDAddress 101) = Some actor0"
    by (simp add: PreviewQueryMethod_def model_defs example_defs Let_def)
  show ?thesis
    using h o
      query_leaves_base_tree [OF h, where t = tree0 and vms = Map.empty and p = processor0
        and to = "IDAddress 100" and meth = 0 and params = "[]" and sender = Undef
        and optBh = None]
      query_leaves_base_tree [OF h, where t = tree0 and vms = Map.empty and p = processor0
        and to = "SECP256K1Address [2]" and meth = 0 and params = "[]" and sender = Undef
        and optBh = None]
    by blast
qed

subsection \<open>Tip-set orchestration\<close>

text \<open>
  Claim C8. For a tip-set whose height cannot be determined, and so for the empty
  tip-set, \<^verbatim>\<open>ProcessTipSet\<close> returns a nil receipt list and a fault wrapping the height
  error; the VM is not constructed and no message is applied (no call is made, the tree
  and the storage are returned as given).
\<close>

theorem ProcessTipSet_no_height:
  "(TipSet_Height ts = Inl e \<longrightarrow>
      ProcessTipSet p x t vms ts msgs =
        ((None, Some (FaultErrorWrap (Some e) ''processing empty tipset'')), t, vms, []) \<and>
      IsFault (snd (fst (ProcessTipSet p x t vms ts msgs)))) \<and>
   ProcessTipSet p x t vms [] msgs =
     ((None, Some (FaultErrorWrap (Some errUndefTipSet) ''processing empty tipset'')),
      t, vms, []) \<and>
   IsFault (snd (fst (ProcessTipSet p x t vms [] msgs)))"
  by (simp add: ProcessTipSet_def FaultErrorWrap_def)

theorem ProcessTipSet_no_height_witness:
  "TipSet_Height [] = Inl errUndefTipSet \<and>
   ProcessTipSet processor0 extern0 tree0 Map.empty [] [([msg0], IDAddress 100)] =
     ((None, Some (FaultErrorWrap (Some errUndefTipSet) ''processing empty tipset'')),
      tree0, Map.empty, []) \<and>
   IsFault (snd (fst (ProcessTipSet processor0 extern0 tree0 Map.empty []
     [([msg0], IDAddress 100)])))"
  using ProcessTipSet_no_height [of "[]" errUndefTipSet processor0 extern0 tree0 Map.empty
    "[([msg0], IDAddress 100)]"]
  by (simp add: FaultErrorWrap_def)

subsection \<open>Direct application\<close>

text \<open>
  Claim C9. For every input \<^verbatim>\<open>ApplyMessageDirect\<close> returns an empty byte slice and a nil
  error; the state tree and the storage map come back as they were given, no
  collaborator is called, and the result is the same whatever the tree and the storage
  map hold.
\<close>

theorem ApplyMessageDirect_empty:
  "ApplyMessageDirect t vms from to nonce val method params = (([], None), t, vms, []) \<and>
   fst (ApplyMessageDirect t vms from to nonce val method params) =
     fst (ApplyMessageDirect t' vms' from to nonce val method params)"
  by (simp add: ApplyMessageDirect_def)

subsection \<open>Actor provisioning\<close>

text \<open>
  Claim C10. When \<^verbatim>\<open>getOrCreateActor\<close> provisions a missing actor (the address resolves
  to nothing and the init actor is in the tree), the two calls to the init actor run
  under a tracker of their own: the first is given a new tracker with the limit 10000,
  the second that same tracker as the first call left it. The tracker of the caller is
  returned as it was given, whatever the address.
\<close>

theorem getOrCreateActor_provisioning_gas:
  assumes "ResolveAddress x addr t store gt = Outcome (a, False, None) tR storeR gtR csR"
    and "CachedTree_GetActor tR (InitAddress x) = Inr initAct"
  shows "gt_after (getOrCreateActor x t store addr gt) = gt \<and>
         (\<exists>c1 r2 t2 s2 g2.
            GasTracker c1 = Some ((NewLegacyGasTracker x)\<lparr>MsgGasLimit := 10000\<rparr>) \<and>
            Context_Send x c1 (InitAddress x) (ExecMethodID x) ZeroAttoFIL
              [CidValue (AccountActorCodeCid x), ListValue [AddressValue addr]] =
              (r2, t2, s2, g2) \<and>
            context_send_trackers (calls (getOrCreateActor x t store addr gt)) =
              [Some ((NewLegacyGasTracker x)\<lparr>MsgGasLimit := 10000\<rparr>), Some g2])"
proof -
  note F = ResolveAddress_frame [OF assms(1)]
  have T: "context_send_trackers csR = []" and gtR: "gtR = gt" using F by simp_all
  define c1 where "c1 =
    \<lparr>From_actor = None, To_actor = Some initAct, ToAddr = Undef, Message = None,
     OriginMsg = None, State = tR, StorageMap = storeR,
     GasTracker = Some ((NewLegacyGasTracker x)\<lparr>MsgGasLimit := 10000\<rparr>),
     BlockHeight = None, Ancestors = [], Actors = DefaultActors x\<rparr>"
  obtain r2 t2 s2 g2 where
    E: "Context_Send x c1 (InitAddress x) (ExecMethodID x) ZeroAttoFIL
          [CidValue (AccountActorCodeCid x), ListValue [AddressValue addr]] = (r2, t2, s2, g2)"
    by (cases "Context_Send x c1 (InitAddress x) (ExecMethodID x) ZeroAttoFIL
          [CidValue (AccountActorCodeCid x), ListValue [AddressValue addr]]")
  have C: "GasTracker c1 = Some ((NewLegacyGasTracker x)\<lparr>MsgGasLimit := 10000\<rparr>)"
    by (simp add: c1_def)
  have A: "gt_after (getOrCreateActor x t store addr gt) = gt \<and>
           context_send_trackers (calls (getOrCreateActor x t store addr gt)) =
             [Some ((NewLegacyGasTracker x)\<lparr>MsgGasLimit := 10000\<rparr>), Some g2]"
    using assms(2) T gtR E [unfolded c1_def]
    by (auto simp: getOrCreateActor_def assms(1) Let_def NewVMContext_def loadActor_def
        split: if_splits sum.splits prod.splits option.splits iface.splits)
  from A C E show ?thesis by blast
qed

theorem getOrCreateActor_provisioning_gas_witness:
  "CachedTree_GetActor (NewCachedTree tree0) (InitAddress extern0) = Inr initActor0 \<and>
   result (ResolveAddress extern0 (SECP256K1Address [2]) (NewCachedTree tree0) Map.empty
     (tracker0\<lparr>MsgGasLimit := 7\<rparr>)) = (Undef, False, None) \<and>
   gt_after (getOrCreateActor extern0 (NewCachedTree tree0) Map.empty (SECP256K1Address [2])
     (tracker0\<lparr>MsgGasLimit := 7\<rparr>)) = tracker0\<lparr>MsgGasLimit := 7\<rparr> \<and>
   length (context_send_trackers (calls (getOrCreateActor extern0 (NewCachedTree tree0)
     Map.empty (SECP256K1Address [2]) (tracker0\<lparr>MsgGasLimit := 7\<rparr>)))) = 2 \<and>
   hd (context_send_trackers (calls (getOrCreateActor extern0 (NewCachedTree tree0)
     Map.empty (SECP256K1Address [2]) (tracker0\<lparr>MsgGasLimit := 7\<rparr>)))) =
     Some ((NewLegacyGasTracker extern0)\<lparr>MsgGasLimit := 10000\<rparr>)"
proof -
  let ?gt = "tracker0\<lparr>MsgGasLimit := 7\<rparr>"
  have i: "CachedTree_GetActor (NewCachedTree tree0) (InitAddress extern0) = Inr initActor0"
    by (simp add: model_defs example_defs)
  have R: "ResolveAddress extern0 (SECP256K1Address [2]) (NewCachedTree tree0) Map.empty ?gt =
     Outcome (Undef, False, None) (NewCachedTree tree0) Map.empty ?gt
       (calls (ResolveAddress extern0 (SECP256K1Address [2]) (NewCachedTree tree0) Map.empty
          ?gt))"
    by (simp add: model_defs example_defs Let_def)
  have r: "result (ResolveAddress extern0 (SECP256K1Address [2]) (NewCachedTree tree0) Map.empty
     ?gt) = (Undef, False, None)"
    by (simp add: model_defs example_defs Let_def)
  show ?thesis
    using i r getOrCreateActor_provisioning_gas [OF R i]
    by auto
qed

end
